theory Spec2Isabelle
  imports Complex_Main "HOL-Library.Word"
begin

section \<open>OpenVoronoi: edge properties of the half-edge graph and the solver base class\<close>

text \<open>
  The theory embeds \<^verbatim>\<open>struct EdgeProps\<close> of \<^verbatim>\<open>voronoidiagram_graph.hpp\<close> and
  \<^verbatim>\<open>class Solver\<close> of \<^verbatim>\<open>solvers/solver.hpp\<close>.

  Conventions of the embedding:
  \<^item> a C++ \<^verbatim>\<open>double\<close> is a \<^typ>\<open>real\<close>: rounding, infinities and NaN are not modelled,
    the arithmetic is the exact one;
  \<^item> a member function takes the state it runs in and returns \<open>error + result\<close>; \<open>Inl\<close>
    is abnormal termination (a failed \<^verbatim>\<open>assert\<close>, which is taken to be compiled in), and
    \<open>Inr\<close> is a normal return;
  \<^item> the state is the edge object itself, the text streamed to \<^verbatim>\<open>std::cout\<close>, and the
    list of stores into the coefficient arrays in program order.
\<close>

subsection \<open>Types of the graph\<close>

text \<open>\<^verbatim>\<open>HEEdge\<close> is an opaque edge descriptor of the graph library, \<^verbatim>\<open>HEFace\<close> is
  \<^verbatim>\<open>unsigned int\<close>.\<close>

type_synonym HEEdge = nat
type_synonym HEFace = "32 word"

datatype VoronoiEdgeType = LINE | PARABOLA | ELLIPSE | HYPERBOLA | SEPARATOR | LINESITE

datatype Point = Point real real

text \<open>
  \<^verbatim>\<open>class Site\<close> is declared outside the two files; the code reads a site only through
  \<^verbatim>\<open>isPoint()\<close>, \<^verbatim>\<open>isLine()\<close>, \<^verbatim>\<open>x()\<close>, \<^verbatim>\<open>y()\<close>, \<^verbatim>\<open>a()\<close>, \<^verbatim>\<open>b()\<close> and \<^verbatim>\<open>c()\<close>.
  A site is the record of what these seven calls return. The two predicates are
  independent virtual functions, so the record does not relate them.
\<close>

record Site =
  isPoint :: bool
  isLine :: bool
  x_site :: real
  y_site :: real
  a :: real
  b :: real
  c :: real

text \<open>The data members of \<^verbatim>\<open>EdgeProps\<close>, in the order of the source. The arrays
  \<^verbatim>\<open>double x[8]\<close> and \<^verbatim>\<open>double y[8]\<close> are lists; a well-formed edge has eight slots in each.\<close>

record EdgeProps =
  "next" :: HEEdge
  twin :: HEEdge
  face :: HEFace
  k :: real
  type :: VoronoiEdgeType
  x :: "real list"
  y :: "real list"

text \<open>
  The three constructors. None of them initialises \<^verbatim>\<open>k\<close>, \<^verbatim>\<open>type\<close>, \<^verbatim>\<open>x\<close> or \<^verbatim>\<open>y\<close>, and the
  first two leave handles unset as well: the members that are not initialised keep what
  the storage \<open>raw\<close> held before.
\<close>

definition EdgeProps_default :: "EdgeProps \<Rightarrow> EdgeProps" where
  "EdgeProps_default raw = raw"

definition EdgeProps_next_face :: "EdgeProps \<Rightarrow> HEEdge \<Rightarrow> HEFace \<Rightarrow> EdgeProps" where
  "EdgeProps_next_face raw n f = raw\<lparr>next := n, face := f\<rparr>"

definition EdgeProps_next_twin_face ::
  "EdgeProps \<Rightarrow> HEEdge \<Rightarrow> HEEdge \<Rightarrow> HEFace \<Rightarrow> EdgeProps" where
  "EdgeProps_next_twin_face raw n t f = raw\<lparr>next := n, twin := t, face := f\<rparr>"

definition wf_edge :: "EdgeProps \<Rightarrow> bool" where
  "wf_edge e = (length (x e) = 8 \<and> length (y e) = 8)"

subsection \<open>The state a member function runs in\<close>

datatype coeff_array = X_array | Y_array

datatype out = Str string | Num real

datatype error = AssertionFailed string

record world =
  edge :: EdgeProps
  cout :: "out list"
  stores :: "(coeff_array \<times> nat) list"

text \<open>Statements in sequence.\<close>

definition seq :: "('s \<Rightarrow> 's) list \<Rightarrow> 's \<Rightarrow> 's" where
  "seq fs s = fold (\<lambda>f. f) fs s"

definition cout_str :: "string \<Rightarrow> world \<Rightarrow> world" where
  "cout_str s w = w\<lparr>cout := cout w @ [Str s]\<rparr>"

definition cout_num :: "real \<Rightarrow> world \<Rightarrow> world" where
  "cout_num r w = w\<lparr>cout := cout w @ [Num r]\<rparr>"

definition set_type :: "VoronoiEdgeType \<Rightarrow> world \<Rightarrow> world" where
  "set_type ty w = w\<lparr>edge := (edge w)\<lparr>type := ty\<rparr>\<rparr>"

text \<open>
  The assignments \<^verbatim>\<open>x[i] = v\<close> and \<^verbatim>\<open>y[i] = v\<close>. Every store is appended to \<open>stores\<close>
  with its index. A store at an index below 8 overwrites that slot. C++ gives no meaning to
  a store at index 8 or above (the arrays are declared with 8 elements): the embedding
  records it in \<open>stores\<close> and leaves the sixteen slots as they are, and says nothing about
  the memory behind the array.
\<close>

definition store_x :: "nat \<Rightarrow> real \<Rightarrow> world \<Rightarrow> world" where
  "store_x i v w =
     w\<lparr>edge := (if i < 8 then (edge w)\<lparr>x := (x (edge w))[i := v]\<rparr> else edge w),
       stores := stores w @ [(X_array, i)]\<rparr>"

definition store_y :: "nat \<Rightarrow> real \<Rightarrow> world \<Rightarrow> world" where
  "store_y i v w =
     w\<lparr>edge := (if i < 8 then (edge w)\<lparr>y := (y (edge w))[i := v]\<rparr> else edge w),
       stores := stores w @ [(Y_array, i)]\<rparr>"

definition in_bounds :: "world \<Rightarrow> bool" where
  "in_bounds w = list_all (\<lambda>(arr, i). i < 8) (stores w)"

subsection \<open>Member functions of \<^verbatim>\<open>EdgeProps\<close>\<close>

definition sq :: "real \<Rightarrow> real" where
  "sq r = r * r"

text \<open>\<^verbatim>\<open>for (int m=0;m<8;m++) std::cout << arr[m] << " ";\<close>\<close>

function print_loop :: "real list \<Rightarrow> nat \<Rightarrow> world \<Rightarrow> world" where
  "print_loop arr m w =
     (if m < 8 then print_loop arr (m + 1) (cout_str '' '' (cout_num (arr ! m) w)) else w)"
  by pat_completeness auto
termination
  by (relation "measure (\<lambda>(arr, m, w). 8 - m)") auto

declare print_loop.simps [simp del]

definition print_params :: "world \<Rightarrow> world" where
  "print_params w =
     seq [cout_str ''x-params: '',
          print_loop (x (edge w)) 0,
          cout_str ''\<newline>'',
          cout_str ''y-params: '',
          print_loop (y (edge w)) 0,
          cout_str ''\<newline>''] w"

definition point :: "real \<Rightarrow> world \<Rightarrow> error + (Point \<times> world)" where
  "point t w =
     (let e = edge w;
          discr1 = sq (x e ! 4 + x e ! 5 * t) - sq (x e ! 6 + x e ! 7 * t);
          discr2 = sq (y e ! 4 + y e ! 5 * t) - sq (y e ! 6 + y e ! 7 * t)
      in if discr1 \<ge> 0 \<and> discr2 \<ge> 0 then
           (let xc = x e ! 0 - x e ! 1 - x e ! 2 * t
                     + x e ! 3 * sqrt (sq (x e ! 4 + x e ! 5 * t) - sq (x e ! 6 + x e ! 7 * t));
                yc = y e ! 0 - y e ! 1 - y e ! 2 * t
                     + y e ! 3 * sqrt (sq (y e ! 4 + y e ! 5 * t) - sq (y e ! 6 + y e ! 7 * t))
            in Inr (Point xc yc, w))
         else Inr (Point 0 0, cout_str '' warning bisector sqrt(-1) !\<newline>'' w))"

text \<open>Called for point(s1)-point(s2) edges.\<close>

definition set_pp_parameters :: "Site \<Rightarrow> Site \<Rightarrow> world \<Rightarrow> error + world" where
  "set_pp_parameters s1 s2 w =
     Inr (seq [cout_str '' set_pp \<newline>'',
               set_type LINE] w)"

text \<open>Called for point(s1)-line(s2) edges.\<close>

definition set_pl_parameters :: "Site \<Rightarrow> Site \<Rightarrow> world \<Rightarrow> error + world" where
  "set_pl_parameters s1 s2 w =
     (let alfa3 = a s2 * x_site s1 + b s2 * y_site s1 + c s2
      in Inr (seq [cout_str '' set_pl \<newline>'',
                   set_type PARABOLA,
                   store_x 0 (x_site s1),
                   store_x 1 (a s2 * alfa3),
                   store_x 2 (- a s2),
                   store_x 3 (b s2),
                   store_x 4 0,
                   store_x 5 1,
                   store_x 6 alfa3,
                   store_x 7 (- 1),
                   store_y 0 (y_site s1),
                   store_y 1 (b s2 * alfa3),
                   store_y 2 (- b s2),
                   store_y 3 (a s2),
                   store_y 4 0,
                   store_y 5 1,
                   store_y 6 alfa3,
                   store_y 7 (- 1),
                   print_params] w))"

text \<open>Line(s1)-line(s2) edge. \<^verbatim>\<open>assert( delta != 0 )\<close> stands between the computation of
  \<open>delta\<close> and the first division.\<close>

definition set_ll_parameters :: "Site \<Rightarrow> Site \<Rightarrow> world \<Rightarrow> error + world" where
  "set_ll_parameters s1 s2 w =
     (let w1 = seq [cout_str '' set_ll \<newline>'',
                    set_type LINE] w;
          delta = a s1 * b s2 - b s1 * a s2
      in if \<not> (delta \<noteq> 0) then Inl (AssertionFailed ''delta != 0'')
         else Inr (seq [store_x 0 (((b s1 * c s2) - (b s2 * c s1)) / delta),
                        store_x 1 0,
                        store_x 2 (- (b s2 - b s1)),
                        store_x 3 0,
                        store_x 4 0,
                        store_x 5 0,
                        store_x 6 0,
                        store_x 7 0,
                        store_y 0 (((a s2 * c s1) - (a s1 * c s2)) / delta),
                        store_y 1 0,
                        store_y 2 (- (a s1 - a s2)),
                        store_y 3 0,
                        store_y 4 0,
                        store_y 5 0,
                        store_y 6 0,
                        store_y 7 0,
                        store_y 8 0] w1))"

definition set_parameters :: "Site \<Rightarrow> Site \<Rightarrow> world \<Rightarrow> error + world" where
  "set_parameters s1 s2 w =
     (if isPoint s1 \<and> isPoint s2 then set_pp_parameters s1 s2 w
      else if isPoint s1 \<and> isLine s2 then set_pl_parameters s1 s2 w
      else if isPoint s2 \<and> isLine s1 then set_pl_parameters s2 s1 w
      else if isLine s1 \<and> isLine s2 then set_ll_parameters s2 s1 w
      else Inl (AssertionFailed ''0''))"

subsection \<open>The solver base class\<close>

text \<open>\<^verbatim>\<open>class Solver\<close> has the one data member \<^verbatim>\<open>debug\<close>. \<^verbatim>\<open>Solution\<close> is declared
  elsewhere and is a type parameter. A virtual function of the base class takes the object
  and the solution vector and returns the \<^verbatim>\<open>int\<close> together with both as they are on
  return. The two overloads of \<^verbatim>\<open>solve\<close> get two names.\<close>

record Solver =
  debug :: bool

definition solve_k ::
  "Solver \<Rightarrow> Site \<Rightarrow> real \<Rightarrow> Site \<Rightarrow> real \<Rightarrow> Site \<Rightarrow> real \<Rightarrow> 'sol list \<Rightarrow> int \<times> Solver \<times> 'sol list" where
  "solve_k this s1 k1 s2 k2 s3 k3 slns = (0, this, slns)"

definition solve ::
  "Solver \<Rightarrow> Site \<Rightarrow> Site \<Rightarrow> Site \<Rightarrow> 'sol list \<Rightarrow> int \<times> Solver \<times> 'sol list" where
  "solve this s1 s2 s3 slns = (0, this, slns)"

definition set_type_solver :: "Solver \<Rightarrow> int \<Rightarrow> Solver" where
  "set_type_solver this n = this"

definition set_debug :: "Solver \<Rightarrow> bool \<Rightarrow> Solver" where
  "set_debug this flag = this\<lparr>debug := flag\<rparr>"

subsection \<open>Calls in sequence and the classification of sites\<close>

text \<open>One call after another on the same edge: an aborted call ends the run.\<close>

definition and_then :: "error + 's \<Rightarrow> ('s \<Rightarrow> error + 'r) \<Rightarrow> error + 'r" where
  "and_then r f = (case r of Inl err \<Rightarrow> Inl err | Inr s \<Rightarrow> f s)"

text \<open>
  The classification the specification speaks of, used to state what \<open>set_parameters\<close>
  dispatches on: a point site answers \<^verbatim>\<open>isPoint()\<close>, a line site answers \<^verbatim>\<open>isLine()\<close>, and
  an arc site is a site for which neither holds.
\<close>

datatype site_class = PointSite | LineSite | ArcSite

definition classify :: "Site \<Rightarrow> site_class" where
  "classify s = (if isPoint s then PointSite else if isLine s then LineSite else ArcSite)"

subsection \<open>Concrete sites and edges\<close>

definition point_site :: "real \<Rightarrow> real \<Rightarrow> Site" where
  "point_site px py =
     \<lparr>isPoint = True, isLine = False, x_site = px, y_site = py, a = 0, b = 0, c = 0\<rparr>"

definition line_site :: "real \<Rightarrow> real \<Rightarrow> real \<Rightarrow> Site" where
  "line_site la lb lc =
     \<lparr>isPoint = False, isLine = True, x_site = 0, y_site = 0, a = la, b = lb, c = lc\<rparr>"

definition arc_site :: Site where
  "arc_site = \<lparr>isPoint = False, isLine = False, x_site = 0, y_site = 0, a = 0, b = 0, c = 0\<rparr>"

definition edge0 :: EdgeProps where
  "edge0 = \<lparr>next = 0, twin = 0, face = 0, k = 1, type = SEPARATOR,
            x = [0, 0, 0, 0, 0, 0, 0, 0], y = [0, 0, 0, 0, 0, 0, 0, 0]\<rparr>"

definition world0 :: world where
  "world0 = \<lparr>edge = edge0, cout = [], stores = []\<rparr>"

text \<open>An edge whose \<open>x\<close> discriminant is \<open>0\<^sup>2 - 1\<^sup>2 = -1\<close> at every \<open>t\<close>.\<close>

definition edge_neg :: EdgeProps where
  "edge_neg = \<lparr>next = 0, twin = 0, face = 0, k = 1, type = PARABOLA,
               x = [0, 0, 0, 0, 0, 0, 1, 0], y = [0, 0, 0, 0, 0, 0, 0, 0]\<rparr>"

definition world_neg :: world where
  "world_neg = \<lparr>edge = edge_neg, cout = [], stores = []\<rparr>"

section \<open>Properties\<close>

subsection \<open>Statements, printing and the coefficient arrays\<close>

lemma seq_Nil: "seq [] s = s"
  by (simp add: seq_def)

lemma seq_Cons: "seq (f # fs) s = seq fs (f s)"
  by (simp add: seq_def)

lemmas stmt_defs = seq_Nil seq_Cons cout_str_def set_type_def store_x_def store_y_def

text \<open>Printing the coefficients changes neither the edge nor the list of stores.\<close>

lemma edge_print_loop: "edge (print_loop arr m w) = edge w"
proof (induction arr m w rule: print_loop.induct)
  case (1 arr m w)
  show ?case
  proof (cases "m < 8")
    case True
    with 1 show ?thesis
      by (subst print_loop.simps) (simp add: cout_str_def cout_num_def)
  next
    case False
    then show ?thesis
      by (subst print_loop.simps) simp
  qed
qed

lemma stores_print_loop: "stores (print_loop arr m w) = stores w"
proof (induction arr m w rule: print_loop.induct)
  case (1 arr m w)
  show ?case
  proof (cases "m < 8")
    case True
    with 1 show ?thesis
      by (subst print_loop.simps) (simp add: cout_str_def cout_num_def)
  next
    case False
    then show ?thesis
      by (subst print_loop.simps) simp
  qed
qed

lemma edge_print_params: "edge (print_params w) = edge w"
  by (simp add: print_params_def seq_Nil seq_Cons edge_print_loop cout_str_def)

lemma stores_print_params: "stores (print_params w) = stores w"
  by (simp add: print_params_def seq_Nil seq_Cons stores_print_loop cout_str_def)

text \<open>Eight stores at the indices 0 to 7 determine an array of eight slots.\<close>

lemma list8_update:
  "length xs = 8 \<Longrightarrow>
   xs[0 := v0, Suc 0 := v1, 2 := v2, 3 := v3, 4 := v4, 5 := v5, 6 := v6, 7 := v7] =
   [v0, v1, v2, v3, v4, v5, v6, v7]"
  by (simp add: list_eq_iff_nth_eq nth_list_update less_Suc_eq numeral_eq_Suc)

subsection \<open>What the two derivations store\<close>

lemma set_pl_parameters_result:
  assumes "wf_edge (edge w)"
  shows "\<exists>w'. set_pl_parameters s1 s2 w = Inr w' \<and>
          type (edge w') = PARABOLA \<and>
          x (edge w') = [x_site s1, a s2 * (a s2 * x_site s1 + b s2 * y_site s1 + c s2),
                         - a s2, b s2, 0, 1, a s2 * x_site s1 + b s2 * y_site s1 + c s2, - 1] \<and>
          y (edge w') = [y_site s1, b s2 * (a s2 * x_site s1 + b s2 * y_site s1 + c s2),
                         - b s2, a s2, 0, 1, a s2 * x_site s1 + b s2 * y_site s1 + c s2, - 1]"
  using assms
  by (simp add: set_pl_parameters_def Let_def stmt_defs edge_print_params wf_edge_def list8_update)

lemma set_pl_parameters_in_bounds:
  assumes "in_bounds w"
  shows "\<exists>w'. set_pl_parameters s1 s2 w = Inr w' \<and> in_bounds w'"
  using assms
  by (simp add: set_pl_parameters_def Let_def stmt_defs stores_print_params in_bounds_def)

lemma set_ll_parameters_result:
  assumes "wf_edge (edge w)" and "a s1 * b s2 - b s1 * a s2 \<noteq> 0"
  shows "\<exists>w'. set_ll_parameters s1 s2 w = Inr w' \<and>
           type (edge w') = LINE \<and>
           x (edge w') = [(b s1 * c s2 - b s2 * c s1) / (a s1 * b s2 - b s1 * a s2),
                          0, - (b s2 - b s1), 0, 0, 0, 0, 0] \<and>
           y (edge w') = [(a s2 * c s1 - a s1 * c s2) / (a s1 * b s2 - b s1 * a s2),
                          0, - (a s1 - a s2), 0, 0, 0, 0, 0]"
  using assms
  by (simp add: set_ll_parameters_def Let_def stmt_defs wf_edge_def list8_update)

lemma set_ll_parameters_stores:
  assumes "a s1 * b s2 - b s1 * a s2 \<noteq> 0"
  shows "\<exists>w'. set_ll_parameters s1 s2 w = Inr w' \<and>
           stores w' = stores w @
             [(X_array, 0), (X_array, 1), (X_array, 2), (X_array, 3),
              (X_array, 4), (X_array, 5), (X_array, 6), (X_array, 7),
              (Y_array, 0), (Y_array, 1), (Y_array, 2), (Y_array, 3),
              (Y_array, 4), (Y_array, 5), (Y_array, 6), (Y_array, 7), (Y_array, 8)]"
  using assms
  by (simp add: set_ll_parameters_def Let_def stmt_defs)

subsection \<open>Evaluation of the curve\<close>

text \<open>
  Claim C1, as the code has it. For every edge and every \<open>t\<close> at which the \<open>x\<close>
  discriminant \<open>(x4 + x5 t)\<^sup>2 - (x6 + x7 t)\<^sup>2\<close> or the \<open>y\<close> discriminant is negative,
  \<open>point t\<close> returns normally: it prints the warning to the standard output and returns
  the fallback point \<open>(0, 0)\<close>. No error reaches the caller.
\<close>

theorem point_negative_discriminant:
  assumes "sq (x (edge w) ! 4 + x (edge w) ! 5 * t) - sq (x (edge w) ! 6 + x (edge w) ! 7 * t) < 0
         \<or> sq (y (edge w) ! 4 + y (edge w) ! 5 * t) - sq (y (edge w) ! 6 + y (edge w) ! 7 * t) < 0"
  shows "point t w = Inr (Point 0 0, cout_str '' warning bisector sqrt(-1) !\<newline>'' w)"
  using assms by (auto simp add: point_def Let_def)

theorem point_negative_discriminant_witness:
  "sq (x (edge world_neg) ! 4 + x (edge world_neg) ! 5 * 0)
     - sq (x (edge world_neg) ! 6 + x (edge world_neg) ! 7 * 0) < 0 \<and>
   point 0 world_neg = Inr (Point 0 0, cout_str '' warning bisector sqrt(-1) !\<newline>'' world_neg)"
proof -
  have neg: "sq (x (edge world_neg) ! 4 + x (edge world_neg) ! 5 * 0)
     - sq (x (edge world_neg) ! 6 + x (edge world_neg) ! 7 * 0) < 0"
    by (simp add: world_neg_def edge_neg_def sq_def)
  from neg point_negative_discriminant [of world_neg 0] show ?thesis
    by blast
qed

text \<open>The claim as stated asks for an error. At \<open>t = 0\<close> on \<open>edge_neg\<close> the discriminant is
  negative and the call is a normal return of the point \<open>(0, 0)\<close>.\<close>

theorem point_negative_discriminant_counterexample:
  "sq (x (edge world_neg) ! 4 + x (edge world_neg) ! 5 * 0)
     - sq (x (edge world_neg) ! 6 + x (edge world_neg) ! 7 * 0) < 0 \<and>
   \<not> isl (point 0 world_neg) \<and>
   point 0 world_neg =
     Inr (Point 0 0, world_neg\<lparr>cout := [Str '' warning bisector sqrt(-1) !\<newline>'']\<rparr>)"
  by (simp add: point_def Let_def world_neg_def edge_neg_def sq_def cout_str_def)

subsection \<open>The dispatch\<close>

text \<open>
  Claim C7. \<open>set_parameters\<close> is decided by the classes of its two sites alone: two points
  go to the point-point derivation, a point and a line in either order go to the point-line
  derivation with the point as its first argument, two lines go to the line-line
  derivation, and every pair with an arc site fails the assertion \<^verbatim>\<open>assert(0)\<close>.
\<close>

theorem set_parameters_dispatch:
  "set_parameters s1 s2 w =
     (case (classify s1, classify s2) of
        (PointSite, PointSite) \<Rightarrow> set_pp_parameters s1 s2 w
      | (PointSite, LineSite) \<Rightarrow> set_pl_parameters s1 s2 w
      | (LineSite, PointSite) \<Rightarrow> set_pl_parameters s2 s1 w
      | (LineSite, LineSite) \<Rightarrow> set_ll_parameters s2 s1 w
      | (ArcSite, _) \<Rightarrow> Inl (AssertionFailed ''0'')
      | (_, ArcSite) \<Rightarrow> Inl (AssertionFailed ''0''))"
  by (simp add: set_parameters_def classify_def)

theorem set_parameters_dispatch_witness:
  "set_parameters arc_site (point_site 0 0) world0 = Inl (AssertionFailed ''0'') \<and>
   set_parameters (line_site 1 0 0) arc_site world0 = Inl (AssertionFailed ''0'') \<and>
   set_parameters (line_site 1 0 0) (point_site 0 0) world0 =
     set_pl_parameters (point_site 0 0) (line_site 1 0 0) world0"
  using set_parameters_dispatch [of arc_site "point_site 0 0" world0]
    set_parameters_dispatch [of "line_site 1 0 0" arc_site world0]
    set_parameters_dispatch [of "line_site 1 0 0" "point_site 0 0" world0]
  by (simp add: classify_def arc_site_def point_site_def line_site_def)

text \<open>
  Claim C10. For two point sites \<open>set_parameters\<close> runs the point-point derivation, which
  sets the type tag to \<open>LINE\<close> and stores into none of the sixteen coefficient slots: both
  arrays, and every other member of the edge, keep the value they had.
\<close>

theorem set_parameters_point_point:
  assumes "isPoint s1" and "isPoint s2"
  shows "\<exists>w'. set_parameters s1 s2 w = Inr w' \<and>
           set_pp_parameters s1 s2 w = Inr w' \<and>
           edge w' = (edge w)\<lparr>type := LINE\<rparr> \<and>
           type (edge w') = LINE \<and>
           x (edge w') = x (edge w) \<and>
           y (edge w') = y (edge w) \<and>
           stores w' = stores w"
  using assms by (simp add: set_parameters_def set_pp_parameters_def stmt_defs)

theorem set_parameters_point_point_witness:
  "isPoint (point_site 0 0) \<and> isPoint (point_site 2 0) \<and>
   (\<exists>w'. set_parameters (point_site 0 0) (point_site 2 0) world_neg = Inr w' \<and>
         type (edge w') = LINE \<and>
         x (edge w') = [0, 0, 0, 0, 0, 0, 1, 0] \<and>
         y (edge w') = [0, 0, 0, 0, 0, 0, 0, 0] \<and>
         stores w' = [])"
proof -
  have p: "isPoint (point_site 0 0)" "isPoint (point_site 2 0)"
    by (simp_all add: point_site_def)
  from set_parameters_point_point [OF p, of world_neg]
  obtain w' where r: "set_parameters (point_site 0 0) (point_site 2 0) world_neg = Inr w'"
    and t: "type (edge w') = LINE"
    and f: "x (edge w') = x (edge world_neg)" "y (edge w') = y (edge world_neg)"
      "stores w' = stores world_neg"
    by blast
  from f have "x (edge w') = [0, 0, 0, 0, 0, 0, 1, 0]" "y (edge w') = [0, 0, 0, 0, 0, 0, 0, 0]"
    "stores w' = []"
    by (simp_all add: world_neg_def edge_neg_def)
  with r t p show ?thesis
    by blast
qed

subsection \<open>Point and line\<close>

text \<open>
  Claim C6. For a point site \<open>s1\<close> and a line site \<open>s2\<close>, given to \<open>set_parameters\<close> in
  either order, the edge gets the type \<open>PARABOLA\<close> and, with
  \<open>alfa3 = a2 x1 + b2 y1 + c2\<close>, the coefficients
  \<open>x = [x1, a2 alfa3, -a2, b2, 0, 1, alfa3, -1]\<close> and
  \<open>y = [y1, b2 alfa3, -b2, a2, 0, 1, alfa3, -1]\<close>.
\<close>

theorem set_parameters_point_line:
  assumes "wf_edge (edge w)" and "isPoint s1" and "isLine s2" and "\<not> isPoint s2"
    and "alfa3 = a s2 * x_site s1 + b s2 * y_site s1 + c s2"
  shows "\<exists>w'. set_parameters s1 s2 w = Inr w' \<and>
           set_parameters s2 s1 w = Inr w' \<and>
           type (edge w') = PARABOLA \<and>
           x (edge w') = [x_site s1, a s2 * alfa3, - a s2, b s2, 0, 1, alfa3, - 1] \<and>
           y (edge w') = [y_site s1, b s2 * alfa3, - b s2, a s2, 0, 1, alfa3, - 1]"
proof -
  from assms(2-4) have "set_parameters s1 s2 w = set_pl_parameters s1 s2 w"
    and "set_parameters s2 s1 w = set_pl_parameters s1 s2 w"
    by (simp_all add: set_parameters_def)
  with set_pl_parameters_result [OF assms(1), of s1 s2] assms(5) show ?thesis
    by auto
qed

theorem set_parameters_point_line_witness:
  "wf_edge (edge world0) \<and>
   isPoint (point_site 1 2) \<and> isLine (line_site (3 / 5) (4 / 5) (- 2)) \<and>
   \<not> isPoint (line_site (3 / 5) (4 / 5) (- 2)) \<and>
   (\<exists>w'. set_parameters (point_site 1 2) (line_site (3 / 5) (4 / 5) (- 2)) world0 = Inr w' \<and>
         set_parameters (line_site (3 / 5) (4 / 5) (- 2)) (point_site 1 2) world0 = Inr w' \<and>
         type (edge w') = PARABOLA \<and>
         x (edge w') = [1, 3 / 25, - (3 / 5), 4 / 5, 0, 1, 1 / 5, - 1] \<and>
         y (edge w') = [2, 4 / 25, - (4 / 5), 3 / 5, 0, 1, 1 / 5, - 1])"
proof -
  have wf: "wf_edge (edge world0)"
    by (simp add: wf_edge_def world0_def edge0_def)
  have s: "isPoint (point_site 1 2)" "isLine (line_site (3 / 5) (4 / 5) (- 2))"
    "\<not> isPoint (line_site (3 / 5) (4 / 5) (- 2))"
    by (simp_all add: point_site_def line_site_def)
  have al: "(1 / 5 :: real) = a (line_site (3 / 5) (4 / 5) (- 2)) * x_site (point_site 1 2)
      + b (line_site (3 / 5) (4 / 5) (- 2)) * y_site (point_site 1 2)
      + c (line_site (3 / 5) (4 / 5) (- 2))"
    by (simp add: point_site_def line_site_def)
  from set_parameters_point_line [OF wf s al] wf s show ?thesis
    by (simp add: point_site_def line_site_def)
qed

text \<open>
  Claim C4, as the code has it. For a point site at \<open>(0, 0)\<close> and the line site
  \<open>a = 1, b = 0, c = -1\<close> the derivation computes \<open>alfa3 = -1\<close> (slot 6 of both arrays).
  At \<open>t = 0\<close> both discriminants are \<open>0\<^sup>2 - (-1)\<^sup>2 = -1\<close>, so \<open>point 0\<close> is the fallback point
  \<open>(0, 0)\<close> with the warning; the midpoint \<open>(1/2, 0)\<close> is the value of \<open>point (-1/2)\<close>.
\<close>

theorem point_line_example:
  assumes "wf_edge (edge w)"
    and "isPoint s1" and "x_site s1 = 0" and "y_site s1 = 0"
    and "isLine s2" and "\<not> isPoint s2" and "a s2 = 1" and "b s2 = 0" and "c s2 = - 1"
  shows "\<exists>w'. set_parameters s1 s2 w = Inr w' \<and>
           x (edge w') = [0, - 1, - 1, 0, 0, 1, - 1, - 1] \<and>
           y (edge w') = [0, 0, 0, 1, 0, 1, - 1, - 1] \<and>
           point 0 w' = Inr (Point 0 0, cout_str '' warning bisector sqrt(-1) !\<newline>'' w') \<and>
           point (- 1 / 2) w' = Inr (Point (1 / 2) 0, w')"
proof -
  from assms(2,5,6) have "set_parameters s1 s2 w = set_pl_parameters s1 s2 w"
    by (simp add: set_parameters_def)
  with set_pl_parameters_result [OF assms(1), of s1 s2] assms(3,4,7,8,9)
  obtain w' where r: "set_parameters s1 s2 w = Inr w'"
    and cx: "x (edge w') = [0, - 1, - 1, 0, 0, 1, - 1, - 1]"
    and cy: "y (edge w') = [0, 0, 0, 1, 0, 1, - 1, - 1]"
    by auto
  have p0: "point 0 w' = Inr (Point 0 0, cout_str '' warning bisector sqrt(-1) !\<newline>'' w')"
    by (simp add: point_def Let_def cx cy sq_def)
  have ph: "point (- 1 / 2) w' = Inr (Point (1 / 2) 0, w')"
    by (simp add: point_def Let_def cx cy sq_def)
  from r cx cy p0 ph show ?thesis
    by blast
qed

theorem point_line_example_witness:
  "wf_edge (edge world0) \<and>
   isPoint (point_site 0 0) \<and> x_site (point_site 0 0) = 0 \<and> y_site (point_site 0 0) = 0 \<and>
   isLine (line_site 1 0 (- 1)) \<and> \<not> isPoint (line_site 1 0 (- 1)) \<and>
   a (line_site 1 0 (- 1)) = 1 \<and> b (line_site 1 0 (- 1)) = 0 \<and> c (line_site 1 0 (- 1)) = - 1 \<and>
   (\<exists>w'. set_parameters (point_site 0 0) (line_site 1 0 (- 1)) world0 = Inr w' \<and>
         x (edge w') = [0, - 1, - 1, 0, 0, 1, - 1, - 1] \<and>
         y (edge w') = [0, 0, 0, 1, 0, 1, - 1, - 1] \<and>
         point 0 w' = Inr (Point 0 0, cout_str '' warning bisector sqrt(-1) !\<newline>'' w') \<and>
         point (- 1 / 2) w' = Inr (Point (1 / 2) 0, w'))"
proof -
  have wf: "wf_edge (edge world0)"
    by (simp add: wf_edge_def world0_def edge0_def)
  have p: "isPoint (point_site 0 0)" "x_site (point_site 0 0) = 0" "y_site (point_site 0 0) = 0"
    by (simp_all add: point_site_def)
  have l: "isLine (line_site 1 0 (- 1))" "\<not> isPoint (line_site 1 0 (- 1))"
    "a (line_site 1 0 (- 1)) = 1" "b (line_site 1 0 (- 1)) = 0" "c (line_site 1 0 (- 1)) = - 1"
    by (simp_all add: line_site_def)
  from point_line_example [OF wf p l] wf p l show ?thesis
    by blast
qed

text \<open>The claim as stated asks for \<open>(1/2, 0)\<close> at \<open>t = 0\<close>: setting the parameters and then
  evaluating at 0 returns \<open>(0, 0)\<close>.\<close>

theorem point_line_example_counterexample:
  "map_sum id fst
     (and_then (set_parameters (point_site 0 0) (line_site 1 0 (- 1)) world0) (point 0))
     = Inr (Point 0 0) \<and>
   Point 0 0 \<noteq> Point (1 / 2) 0"
  by (simp add: and_then_def set_parameters_def set_pl_parameters_def Let_def stmt_defs
      edge_print_params point_def sq_def point_site_def line_site_def world0_def edge0_def)

subsection \<open>Line and line\<close>

text \<open>
  Claim C2. For two line sites with \<open>a1 b2 - b1 a2 = 0\<close> the call of \<open>set_parameters\<close> ends
  in the failed assertion \<^verbatim>\<open>delta != 0\<close>: it returns no edge, so no coefficient has been
  computed from the zero denominator.
\<close>

theorem set_parameters_parallel_lines:
  assumes "isLine s1" and "\<not> isPoint s1" and "isLine s2" and "\<not> isPoint s2"
    and "a s1 * b s2 - b s1 * a s2 = 0"
  shows "set_parameters s1 s2 w = Inl (AssertionFailed ''delta != 0'')"
proof -
  from assms(5) have "a s2 * b s1 - b s2 * a s1 = 0"
    by (simp add: algebra_simps)
  with assms(1-4) show ?thesis
    by (simp add: set_parameters_def set_ll_parameters_def Let_def)
qed

theorem set_parameters_parallel_lines_witness:
  "isLine (line_site 1 0 0) \<and> \<not> isPoint (line_site 1 0 0) \<and>
   isLine (line_site 1 0 (- 1)) \<and> \<not> isPoint (line_site 1 0 (- 1)) \<and>
   a (line_site 1 0 0) * b (line_site 1 0 (- 1)) - b (line_site 1 0 0) * a (line_site 1 0 (- 1)) = 0 \<and>
   set_parameters (line_site 1 0 0) (line_site 1 0 (- 1)) world0 = Inl (AssertionFailed ''delta != 0'')"
proof -
  have l: "isLine (line_site 1 0 0)" "\<not> isPoint (line_site 1 0 0)"
    "isLine (line_site 1 0 (- 1))" "\<not> isPoint (line_site 1 0 (- 1))"
    "a (line_site 1 0 0) * b (line_site 1 0 (- 1)) - b (line_site 1 0 0) * a (line_site 1 0 (- 1)) = 0"
    by (simp_all add: line_site_def)
  from set_parameters_parallel_lines [OF l, of world0] l show ?thesis
    by blast
qed

text \<open>
  Claim C5, as the code has it. \<open>set_parameters\<close> hands two line sites to the line-line
  derivation in the order \<open>(s2, s1)\<close>. For non-parallel lines, with
  \<open>delta = a1 b2 - b1 a2\<close> in the order of the call, the edge gets the type \<open>LINE\<close>,
  \<open>x0 = (b1 c2 - b2 c1) / delta\<close>, \<open>x2 = -(b1 - b2)\<close>, \<open>y0 = (a2 c1 - a1 c2) / delta\<close>,
  \<open>y2 = -(a2 - a1)\<close>, and zero in the slots 1 and 3 to 7 of both arrays.
\<close>

theorem set_parameters_line_line:
  assumes "wf_edge (edge w)"
    and "isLine s1" and "\<not> isPoint s1" and "isLine s2" and "\<not> isPoint s2"
    and "delta = a s1 * b s2 - b s1 * a s2" and "delta \<noteq> 0"
  shows "\<exists>w'. set_parameters s1 s2 w = Inr w' \<and>
           type (edge w') = LINE \<and>
           x (edge w') = [(b s1 * c s2 - b s2 * c s1) / delta, 0, - (b s1 - b s2), 0, 0, 0, 0, 0] \<and>
           y (edge w') = [(a s2 * c s1 - a s1 * c s2) / delta, 0, - (a s2 - a s1), 0, 0, 0, 0, 0]"
proof -
  have swap: "a s2 * b s1 - b s2 * a s1 = - delta"
    using assms(6) by (simp add: algebra_simps)
  with assms(7) have nz: "a s2 * b s1 - b s2 * a s1 \<noteq> 0"
    by simp
  have x0: "(b s2 * c s1 - b s1 * c s2) / (a s2 * b s1 - b s2 * a s1)
      = (b s1 * c s2 - b s2 * c s1) / delta"
    unfolding swap by (simp add: divide_simps assms(7))
  have y0: "(a s1 * c s2 - a s2 * c s1) / (a s2 * b s1 - b s2 * a s1)
      = (a s2 * c s1 - a s1 * c s2) / delta"
    unfolding swap by (simp add: divide_simps assms(7))
  from assms(2-5) have "set_parameters s1 s2 w = set_ll_parameters s2 s1 w"
    by (simp add: set_parameters_def)
  with set_ll_parameters_result [OF assms(1) nz] x0 y0 show ?thesis
    by auto
qed

theorem set_parameters_line_line_witness:
  "wf_edge (edge world0) \<and>
   isLine (line_site 1 0 0) \<and> \<not> isPoint (line_site 1 0 0) \<and>
   isLine (line_site 0 1 2) \<and> \<not> isPoint (line_site 0 1 2) \<and>
   a (line_site 1 0 0) * b (line_site 0 1 2) - b (line_site 1 0 0) * a (line_site 0 1 2) = 1 \<and>
   (\<exists>w'. set_parameters (line_site 1 0 0) (line_site 0 1 2) world0 = Inr w' \<and>
         type (edge w') = LINE \<and>
         x (edge w') = [0, 0, 1, 0, 0, 0, 0, 0] \<and>
         y (edge w') = [- 2, 0, 1, 0, 0, 0, 0, 0])"
proof -
  have wf: "wf_edge (edge world0)"
    by (simp add: wf_edge_def world0_def edge0_def)
  have d: "(1::real) = a (line_site 1 0 0) * b (line_site 0 1 2)
      - b (line_site 1 0 0) * a (line_site 0 1 2)"
    by (simp add: line_site_def)
  have l: "isLine (line_site 1 0 0)" "\<not> isPoint (line_site 1 0 0)"
    "isLine (line_site 0 1 2)" "\<not> isPoint (line_site 0 1 2)"
    by (simp_all add: line_site_def)
  from set_parameters_line_line [OF wf l d] wf l d show ?thesis
    by (simp add: line_site_def)
qed

text \<open>The claim as stated asks for \<open>x2 = -(b2 - b1)\<close>. For the lines \<open>x = 0\<close> and \<open>y = 0\<close>,
  where \<open>delta = 1\<close>, that is \<open>-1\<close>; the edge holds \<open>x2 = 1\<close>.\<close>

theorem set_parameters_line_line_counterexample:
  "a (line_site 1 0 0) * b (line_site 0 1 0) - b (line_site 1 0 0) * a (line_site 0 1 0) = 1 \<and>
   map_sum id (x \<circ> edge) (set_parameters (line_site 1 0 0) (line_site 0 1 0) world0)
     = Inr [0, 0, 1, 0, 0, 0, 0, 0] \<and>
   - (b (line_site 0 1 0) - b (line_site 1 0 0)) = - 1"
  by (simp add: set_parameters_def set_ll_parameters_def Let_def stmt_defs line_site_def
      world0_def edge0_def)

subsection \<open>Indices of the stores\<close>

text \<open>
  Claim C3 asks that every access of the two arrays stays within the indices 0 to 7. The
  point-line derivation does (\<open>set_pl_parameters_in_bounds\<close>). The line-line derivation
  does not: for every pair of non-parallel lines its last statement is the store
  \<^verbatim>\<open>y[8]=0\<close>, one slot behind the end of \<^verbatim>\<open>double y[8]\<close>.
\<close>

theorem set_ll_parameters_store_past_end:
  assumes "a s1 * b s2 - b s1 * a s2 \<noteq> 0"
  shows "\<exists>w'. set_ll_parameters s1 s2 w = Inr w' \<and>
           last (stores w') = (Y_array, 8) \<and>
           \<not> in_bounds w'"
proof -
  from set_ll_parameters_stores [OF assms]
  obtain w' where r: "set_ll_parameters s1 s2 w = Inr w'"
    and s: "stores w' = stores w @
             [(X_array, 0), (X_array, 1), (X_array, 2), (X_array, 3),
              (X_array, 4), (X_array, 5), (X_array, 6), (X_array, 7),
              (Y_array, 0), (Y_array, 1), (Y_array, 2), (Y_array, 3),
              (Y_array, 4), (Y_array, 5), (Y_array, 6), (Y_array, 7), (Y_array, 8)]"
    by blast
  from s have "last (stores w') = (Y_array, 8)"
    by simp
  moreover from s have "\<not> in_bounds w'"
    by (simp add: in_bounds_def)
  ultimately show ?thesis
    using r by blast
qed

theorem set_ll_parameters_store_past_end_witness:
  "in_bounds world0 \<and>
   a (line_site 1 0 0) * b (line_site 0 1 0) - b (line_site 1 0 0) * a (line_site 0 1 0) \<noteq> 0 \<and>
   (\<exists>w'. set_ll_parameters (line_site 1 0 0) (line_site 0 1 0) world0 = Inr w' \<and>
         last (stores w') = (Y_array, 8) \<and> \<not> in_bounds w')"
proof -
  have ib: "in_bounds world0"
    by (simp add: in_bounds_def world0_def)
  have nz: "a (line_site 1 0 0) * b (line_site 0 1 0) - b (line_site 1 0 0) * a (line_site 0 1 0) \<noteq> 0"
    by (simp add: line_site_def)
  from set_ll_parameters_store_past_end [OF nz] ib nz show ?thesis
    by simp
qed

subsection \<open>The default solver\<close>

text \<open>
  Claim C8. Both default \<^verbatim>\<open>solve\<close> overloads of the base class return 0 for every input
  and leave the solution vector (and the solver object) as they were: no candidate
  solution is appended.
\<close>

theorem solver_default_returns_zero:
  "solve_k this s1 k1 s2 k2 s3 k3 slns = (0, this, slns) \<and>
   solve this s1 s2 s3 slns = (0, this, slns)"
  by (simp add: solve_k_def solve_def)

end
